theory Spec2Isabelle
  imports Main "HOL-Library.Word"
begin

unbundle bit_operations_syntax

section \<open>Field masks\<close>

text \<open>
  Modelled from the spec: \<open>FieldMask\<close> is not defined in \<open>legion_analysis.h\<close>, which takes
  it from the headers it includes. The spec describes it as a fixed-universe bit-set
  over field identifiers with intersection, union, subtraction and an emptiness test. The size of the universe (the macro \<open>MAX_FIELDS\<close>)
  is the type parameter \<open>'f\<close>; the operators \<open>|\<close>, \<open>&\<close> of the source are \<open>OR\<close>,
  \<open>AND\<close> on \<open>'f word\<close>.
\<close>

type_synonym 'f FieldMask = "'f word"

text \<open>Modelled from the spec: \<open>FieldMask::operator!\<close>, the emptiness test.\<close>

definition mask_not :: "'f::len FieldMask \<Rightarrow> bool" where
  "mask_not m = (m = 0)"

text \<open>Modelled from the spec: \<open>FieldMask::operator-\<close>, subtraction of field sets.\<close>

definition mask_minus :: "'f::len FieldMask \<Rightarrow> 'f FieldMask \<Rightarrow> 'f FieldMask" where
  "mask_minus a b = a AND NOT b"

text \<open>Modelled from the spec: \<open>FieldMask::operator*\<close>, the disjointness test.\<close>

definition mask_disjoint :: "'f::len FieldMask \<Rightarrow> 'f FieldMask \<Rightarrow> bool" where
  "mask_disjoint a b = (a AND b = 0)"

section \<open>VersionInfo\<close>

text \<open>
  \<open>size_t\<close> of the source, on an LP64 target: an unsigned 64-bit integer whose
  subtraction wraps around.
\<close>

type_synonym size_t = "64 word"

type_synonym VersionID = nat
type_synonym PhysicalStateRef = nat
type_synonym RegionTreeNodeRef = nat

text \<open>
  The members of class \<open>VersionInfo\<close>. A pointer that may be \<open>NULL\<close> is an option;
  the three vectors indexed by depth are lists. \<open>FieldVersions\<close> is
  \<open>LegionMap<VersionID,FieldMask>\<close>, an ordered map, kept as an association list.
\<close>

type_synonym 'f FieldVersions = "(VersionID \<times> 'f FieldMask) list"

record (overloaded) 'f VersionInfo =
  upper_bound_node :: "RegionTreeNodeRef option"
  physical_states :: "PhysicalStateRef option list"
  field_versions :: "'f FieldVersions list"
  split_masks :: "'f FieldMask list"

text \<open>\<open>std::vector::size()\<close>: the number of elements, as a \<open>size_t\<close>.\<close>

definition vector_size :: "'a list \<Rightarrow> size_t" where
  "vector_size xs = of_nat (length xs)"

definition is_upper_bound_set :: "'f VersionInfo \<Rightarrow> bool" where
  "is_upper_bound_set v = (upper_bound_node v \<noteq> None)"

definition is_upper_bound_node :: "'f VersionInfo \<Rightarrow> RegionTreeNodeRef option \<Rightarrow> bool" where
  "is_upper_bound_node v node = (node = upper_bound_node v)"

datatype error = AssertionFailed

text \<open>
  \<open>VersionInfo::get_depth\<close>. The source has two bodies, chosen by the macro
  \<open>DEBUG_LEGION\<close>: the first argument says whether it is defined. A failing \<open>assert\<close>
  aborts the program, which is the result \<open>Inl AssertionFailed\<close>.
\<close>

definition get_depth :: "bool \<Rightarrow> 'f VersionInfo \<Rightarrow> error + size_t" where
  "get_depth debug_legion v =
     (if debug_legion then
        (if \<not> (\<not> (physical_states v = [])) then Inl AssertionFailed
         else Inr (vector_size (physical_states v) - 1))
      else Inr (vector_size (physical_states v) - 1))"

section \<open>LogicalCloser\<close>

type_synonym CloseOpRef = nat

text \<open>
  The protected members of class \<open>LogicalCloser\<close> that the close bookkeeping uses: the
  field masks of the close categories and the four close operation pointers
  (\<open>NULL\<close> is \<open>None\<close>).
\<close>

record (overloaded) 'f LogicalCloser =
  normal_close_mask :: "'f FieldMask"
  read_only_close_mask :: "'f FieldMask"
  flush_only_close_mask :: "'f FieldMask"
  overwriting_close_mask :: "'f FieldMask"
  disjoint_close_mask :: "'f FieldMask"
  closed_projections :: "'f FieldMask"
  complete_writes :: "'f FieldMask"
  normal_close_op :: "CloseOpRef option"
  index_close_op :: "CloseOpRef option"
  read_only_close_op :: "CloseOpRef option"
  flush_only_close_op :: "CloseOpRef option"

text \<open>\<open>LogicalCloser::has_close_operations\<close>, with \<open>!!m\<close> written as the source has it.\<close>

definition has_close_operations :: "('f::len) LogicalCloser \<Rightarrow> bool" where
  "has_close_operations c =
     ((\<not> mask_not (normal_close_mask c)) \<or> (\<not> mask_not (read_only_close_mask c)) \<or>
      (\<not> mask_not (flush_only_close_mask c)) \<or> (\<not> mask_not (disjoint_close_mask c)))"



section \<open>Projections and field states\<close>

type_synonym ProjectionFunctionRef = nat
type_synonym ShardingFunctionRef = nat

text \<open>
  Modelled from the spec: \<open>IndexSpaceNode\<close> and its queries are declared outside this
  file. The spec lists, among the collaborators, region-tree navigation with
  disjointness and domination queries between index-space nodes. An index space is
  represented by the set of its points: one index space dominates another when it
  holds every point of the other, and two are disjoint when they share no point.
\<close>

type_synonym IndexSpaceNode = "nat set"




text \<open>
  The public members of class \<open>ProjectionInfo\<close>. Its member \<open>projection\<close> is named
  \<open>info_projection\<close> here, as \<open>ProjectionSummary\<close> has a member of the same name.
\<close>

record ProjectionInfo =
  info_projection :: "ProjectionFunctionRef option"
  projection_space :: "IndexSpaceNode option"
  sharding_function :: "ShardingFunctionRef option"
  dirty_reduction :: bool

definition is_projecting :: "ProjectionInfo \<Rightarrow> bool" where
  "is_projecting info = (info_projection info \<noteq> None)"

definition is_dirty_reduction :: "ProjectionInfo \<Rightarrow> bool" where
  "is_dirty_reduction info = dirty_reduction info"

definition set_dirty_reduction :: "ProjectionInfo \<Rightarrow> ProjectionInfo" where
  "set_dirty_reduction info = info\<lparr>dirty_reduction := True\<rparr>"





section \<open>VersionManager\<close>

type_synonym UniqueID = nat
type_synonym ProjectionEpochID = nat
type_synonym AddressSpaceID = nat

text \<open>The nested struct \<open>VersionManager::ProjectionEpoch\<close> with its two operators.\<close>

record ProjectionEpoch =
  logical_ctx_id :: UniqueID
  epoch_id :: ProjectionEpochID

definition ProjectionEpoch_eq :: "ProjectionEpoch \<Rightarrow> ProjectionEpoch \<Rightarrow> bool" where
  "ProjectionEpoch_eq a rhs =
     ((logical_ctx_id a = logical_ctx_id rhs) \<and> (epoch_id a = epoch_id rhs))"

definition ProjectionEpoch_less :: "ProjectionEpoch \<Rightarrow> ProjectionEpoch \<Rightarrow> bool" where
  "ProjectionEpoch_less a rhs =
     (if logical_ctx_id a < logical_ctx_id rhs then True
      else if logical_ctx_id a > logical_ctx_id rhs then False
      else epoch_id a < epoch_id rhs)"

text \<open>\<open>static const VersionID init_version = 1\<close>.\<close>

definition init_version :: VersionID where
  "init_version = 1"

text \<open>
  Modelled from the spec: \<open>LegionMap<VersionID,ManagerVersions>\<close>, the type of
  \<open>current_version_infos\<close> and \<open>previous_version_infos\<close>. \<open>ManagerVersions\<close> is a
  \<open>VersioningSet\<close>, whose operations are only declared in this file; the spec describes
  the maps as version number to a set of version-state and mask pairs. An entry is
  represented by the mask of the fields that are at that version number, in the
  order of the version numbers.
\<close>

type_synonym 'f VersionInfos = "(VersionID \<times> 'f FieldMask) list"

text \<open>
  The protected members of class \<open>VersionManager\<close> that the version bookkeeping uses.
  \<open>previous_opens\<close> and \<open>previous_advancers\<close> are \<open>LegionMap<ProjectionEpoch,FieldMask>\<close>.
\<close>

record (overloaded) 'f VersionManager =
  is_owner :: bool
  owner_space :: AddressSpaceID
  current_version_infos :: "'f VersionInfos"
  previous_version_infos :: "'f VersionInfos"
  remote_valid_fields :: "'f FieldMask"
  pending_remote_advance_summary :: "'f FieldMask"
  previous_opens :: "ProjectionEpoch \<rightharpoonup> 'f FieldMask"
  previous_advancers :: "ProjectionEpoch \<rightharpoonup> 'f FieldMask"

text \<open>The fields that have a version number in a version map: the union of its masks.\<close>

fun versioned_fields :: "('f::len) VersionInfos \<Rightarrow> 'f FieldMask" where
  "versioned_fields [] = 0"
| "versioned_fields ((v, m) # xs) = m OR versioned_fields xs"

text \<open>\<open>infos[vid] |= m\<close> on the ordered map.\<close>

fun version_insert :: "VersionID \<Rightarrow> ('f::len) FieldMask \<Rightarrow> 'f VersionInfos \<Rightarrow> 'f VersionInfos" where
  "version_insert vid m [] = [(vid, m)]"
| "version_insert vid m ((u, n) # xs) =
     (if vid < u then (vid, m) # (u, n) # xs
      else if vid = u then (u, n OR m) # xs
      else (u, n) # version_insert vid m xs)"

text \<open>The entries of a version map restricted to the fields of \<open>m\<close>; empty ones are left out.\<close>

fun select_fields :: "('f::len) FieldMask \<Rightarrow> 'f VersionInfos \<Rightarrow> 'f VersionInfos" where
  "select_fields m [] = []"
| "select_fields m ((v, n) # xs) =
     (if mask_disjoint n m then select_fields m xs else (v, n AND m) # select_fields m xs)"

text \<open>A version map without the fields of \<open>m\<close>; entries that become empty are erased.\<close>

fun filter_fields :: "('f::len) FieldMask \<Rightarrow> 'f VersionInfos \<Rightarrow> 'f VersionInfos" where
  "filter_fields m [] = []"
| "filter_fields m ((v, n) # xs) =
     (if mask_not (mask_minus n m) then filter_fields m xs
      else (v, mask_minus n m) # filter_fields m xs)"

text \<open>The version numbers a version map gives to field \<open>i\<close>.\<close>

fun versions_of_field :: "nat \<Rightarrow> ('f::len) VersionInfos \<Rightarrow> VersionID list" where
  "versions_of_field i [] = []"
| "versions_of_field i ((v, n) # xs) =
     (if bit n i then v # versions_of_field i xs else versions_of_field i xs)"

text \<open>
  Modelled from the spec: \<open>find_or_create_unversioned_states\<close> is only declared in this
  file. The spec (7): a field mask with no existing version state is not an error; it
  triggers creation of an initial version state (version number 1). The fields of
  \<open>unversioned\<close> that still have no version state get one at \<open>init_version\<close>; the result
  holds the states of the requested fields.
\<close>

definition find_or_create_unversioned_states ::
    "('f::len) VersionManager \<Rightarrow> 'f FieldMask \<Rightarrow> 'f VersionManager \<times> 'f VersionInfos" where
  "find_or_create_unversioned_states vm unversioned =
     (let missing = mask_minus unversioned (versioned_fields (current_version_infos vm));
          vm' = (if mask_not missing then vm
                 else vm\<lparr>current_version_infos :=
                            version_insert init_version missing (current_version_infos vm)\<rparr>)
      in (vm', select_fields unversioned (current_version_infos vm')))"

text \<open>
  Modelled from the spec: \<open>record_current_versions\<close> and \<open>record_path_only_versions\<close> are
  only declared in this file; both return \<open>void\<close>. The spec (4.3) gives them one
  description: for a requested field mask, determine which fields are unversioned
  (no version state exists yet, which triggers creation of the initial version
  number). The result is the manager, the field versions recorded for the requested
  fields and the mask of the fields found unversioned. Fetching from a remote owner
  and the completion events are not modelled; the spec does not say what
  \<open>record_path_only_versions\<close> does with its split mask.
\<close>

definition record_current_versions ::
    "('f::len) VersionManager \<Rightarrow> 'f FieldMask
       \<Rightarrow> 'f VersionManager \<times> 'f FieldVersions \<times> 'f FieldMask" where
  "record_current_versions vm version_mask =
     (let unversioned = mask_minus version_mask (versioned_fields (current_version_infos vm));
          vm' = (if mask_not unversioned then vm
                 else fst (find_or_create_unversioned_states vm unversioned))
      in (vm', select_fields version_mask (current_version_infos vm'), unversioned))"

definition record_path_only_versions ::
    "('f::len) VersionManager \<Rightarrow> 'f FieldMask \<Rightarrow> 'f FieldMask
       \<Rightarrow> 'f VersionManager \<times> 'f FieldVersions \<times> 'f FieldMask" where
  "record_path_only_versions vm version_mask split_mask =
     (let unversioned = mask_minus version_mask (versioned_fields (current_version_infos vm));
          vm' = (if mask_not unversioned then vm
                 else fst (find_or_create_unversioned_states vm unversioned))
      in (vm', select_fields version_mask (current_version_infos vm'), unversioned))"

text \<open>
  Modelled from the spec: \<open>advance_versions\<close> is only declared in this file. The spec
  (4.3): it moves a field's version number forward, demoting current version-state
  objects to previous and creating the next version state. \<open>advance_fields\<close> is that
  step for the fields of \<open>m\<close>: the fields leave their current entries, which become
  the previous entries of these fields, and enter the entry of the next version
  number; fields without a version get the initial one (spec 7).
\<close>

definition advance_fields :: "('f::len) VersionManager \<Rightarrow> 'f FieldMask \<Rightarrow> 'f VersionManager" where
  "advance_fields vm m =
     (let cur = current_version_infos vm;
          demoted = select_fields m cur;
          unversioned = mask_minus m (versioned_fields cur);
          next = foldl (\<lambda>acc (v, n). version_insert (Suc v) n acc) (filter_fields m cur) demoted;
          next' = (if mask_not unversioned then next
                   else version_insert init_version unversioned next)
      in vm\<lparr>current_version_infos := next',
             previous_version_infos :=
               foldl (\<lambda>acc (v, n). version_insert v n acc)
                 (filter_fields m (previous_version_infos vm)) demoted\<rparr>)"

text \<open>
  Modelled from the spec: the deduplication of \<open>advance_versions\<close>. The spec (4.3, 5):
  advances are deduplicated per (logical-context, epoch-id) pair (the flags
  \<open>dedup_opens\<close> and \<open>dedup_advances\<close>); the second arrival observes the first's effect
  via the epoch id and is a no-op. \<open>dedup_epoch\<close> takes from the mask the fields already
  recorded under the key and records the remaining ones. The maps are the members
  \<open>previous_opens\<close> and \<open>previous_advancers\<close> of the source.
\<close>

definition dedup_epoch ::
    "ProjectionEpoch \<Rightarrow> ('f::len) FieldMask \<Rightarrow> (ProjectionEpoch \<rightharpoonup> 'f FieldMask)
       \<Rightarrow> 'f FieldMask \<times> (ProjectionEpoch \<rightharpoonup> 'f FieldMask)" where
  "dedup_epoch key m prev =
     (let seen = (case prev key of None \<Rightarrow> 0 | Some s \<Rightarrow> s);
          remaining = mask_minus m seen
      in (remaining, if mask_not remaining then prev else prev(key \<mapsto> seen OR remaining)))"

definition advance_versions ::
    "('f::len) VersionManager \<Rightarrow> 'f FieldMask \<Rightarrow> UniqueID \<Rightarrow> bool \<Rightarrow> ProjectionEpochID
       \<Rightarrow> bool \<Rightarrow> ProjectionEpochID \<Rightarrow> 'f VersionManager" where
  "advance_versions vm version_mask logical_context_uid dedup_opens open_epoch
       dedup_advances advance_epoch =
     (let (m1, opens) =
            (if dedup_opens
             then dedup_epoch \<lparr>logical_ctx_id = logical_context_uid, epoch_id = open_epoch\<rparr>
                    version_mask (previous_opens vm)
             else (version_mask, previous_opens vm))
      in if dedup_opens \<and> mask_not m1 then vm
         else
           (let vm1 = vm\<lparr>previous_opens := opens\<rparr>;
                (m2, advancers) =
                  (if dedup_advances
                   then dedup_epoch
                          \<lparr>logical_ctx_id = logical_context_uid, epoch_id = advance_epoch\<rparr>
                          m1 (previous_advancers vm1)
                   else (m1, previous_advancers vm1))
            in if dedup_advances \<and> mask_not m2 then vm1
               else advance_fields (vm1\<lparr>previous_advancers := advancers\<rparr>) m2))"

section \<open>Properties of VersionInfo\<close>

lemma vector_size_unat:
  assumes "length xs < 2 ^ 64"
  shows "unat (vector_size xs) = length xs"
  using assms by (simp add: vector_size_def unat_of_nat)

lemma vector_size_nonzero:
  assumes "xs \<noteq> []" and "length xs < 2 ^ 64"
  shows "vector_size xs \<noteq> 0"
proof
  assume "vector_size xs = 0"
  then have "unat (vector_size xs) = 0" by simp
  with assms(2) have "length xs = 0" by (simp add: vector_size_unat)
  with assms(1) show False by simp
qed

text \<open>
  C10. For a \<open>VersionInfo\<close> whose \<open>physical_states\<close> vector is not empty (and, like every
  vector, holds fewer than \<open>2^64\<close> elements), \<open>get_depth\<close> returns
  \<open>physical_states.size() - 1\<close> without wrapping, in both builds, so the debug assertion
  does not fire. On an empty vector the assertion of the debug build fails and the
  release build computes \<open>0 - 1\<close> in \<open>size_t\<close>, which wraps to \<open>2^64 - 1\<close>.
\<close>

theorem get_depth_nonempty:
  fixes v :: "('f::len) VersionInfo"
  shows "(physical_states v \<noteq> [] \<and> length (physical_states v) < 2 ^ 64 \<longrightarrow>
            (\<forall>dbg. get_depth dbg v = Inr (vector_size (physical_states v) - 1)) \<and>
            unat (vector_size (physical_states v) - 1) = length (physical_states v) - 1 \<and>
            unat (vector_size (physical_states v) - 1) < unat (vector_size (physical_states v))) \<and>
         (physical_states v = [] \<longrightarrow>
            get_depth True v = Inl AssertionFailed \<and>
            get_depth False v = Inr (- 1) \<and>
            unat (- 1 :: size_t) = 2 ^ 64 - 1)"
proof (intro conjI impI)
  assume ne: "physical_states v \<noteq> [] \<and> length (physical_states v) < 2 ^ 64"
  let ?xs = "physical_states v"
  from ne have nz: "vector_size ?xs \<noteq> 0" by (simp add: vector_size_nonzero)
  from ne have sz: "unat (vector_size ?xs) = length ?xs" by (simp add: vector_size_unat)
  show "\<forall>dbg. get_depth dbg v = Inr (vector_size ?xs - 1)"
    using ne by (simp add: get_depth_def)
  from nz have "unat (vector_size ?xs - 1) = unat (vector_size ?xs) - 1"
    by (simp add: unat_minus_one)
  with sz show d: "unat (vector_size ?xs - 1) = length ?xs - 1" by simp
  from ne have "0 < length ?xs" by simp
  with d sz show "unat (vector_size ?xs - 1) < unat (vector_size ?xs)" by simp
next
  assume e: "physical_states v = []"
  then show "get_depth True v = Inl AssertionFailed" by (simp add: get_depth_def)
  from e show "get_depth False v = Inr (- 1)" by (simp add: get_depth_def vector_size_def)
  show "unat (- 1 :: size_t) = 2 ^ 64 - 1" by (simp add: unsigned_minus_1_eq_mask mask_eq_exp_minus_1)
qed

theorem get_depth_nonempty_witness:
  "(let v = \<lparr>upper_bound_node = Some 7, physical_states = [Some 1, Some 2, None],
              field_versions = [[(1, 3)], [], [(2, 1)]], split_masks = [0, 0, 1]\<rparr> :: 8 VersionInfo
    in physical_states v \<noteq> [] \<and> length (physical_states v) < 2 ^ 64 \<and>
       get_depth True v = Inr 2 \<and> get_depth False v = Inr 2) \<and>
   (let w = \<lparr>upper_bound_node = None, physical_states = [],
              field_versions = [], split_masks = []\<rparr> :: 8 VersionInfo
    in physical_states w = [] \<and> get_depth True w = Inl AssertionFailed \<and>
       get_depth False w = Inr 18446744073709551615)"
proof -
  let ?v = "\<lparr>upper_bound_node = Some 7, physical_states = [Some 1, Some 2, None],
              field_versions = [[(1, 3)], [], [(2, 1)]], split_masks = [0, 0, 1]\<rparr> :: 8 VersionInfo"
  let ?w = "\<lparr>upper_bound_node = None, physical_states = [],
              field_versions = [], split_masks = []\<rparr> :: 8 VersionInfo"
  have a: "physical_states ?v \<noteq> [] \<and> length (physical_states ?v) < 2 ^ 64" by simp
  have b: "physical_states ?w = []" by simp
  from a get_depth_nonempty [of ?v]
  have "\<forall>dbg. get_depth dbg ?v = Inr (vector_size (physical_states ?v) - 1)" by blast
  then have c: "get_depth True ?v = Inr 2 \<and> get_depth False ?v = Inr 2"
    by (simp add: vector_size_def)
  from b get_depth_nonempty [of ?w]
  have "get_depth True ?w = Inl AssertionFailed \<and> get_depth False ?w = Inr (- 1)" by blast
  then have d: "get_depth True ?w = Inl AssertionFailed \<and>
      get_depth False ?w = Inr 18446744073709551615" by simp
  from a b c d show ?thesis by (simp only: Let_def) simp
qed

section \<open>Properties of LogicalCloser\<close>

text \<open>
  C9. \<open>has_close_operations\<close> is true exactly when one of \<open>normal_close_mask\<close>,
  \<open>read_only_close_mask\<close>, \<open>flush_only_close_mask\<close>, \<open>disjoint_close_mask\<close> is not empty.
  It reads neither \<open>overwriting_close_mask\<close> nor \<open>closed_projections\<close>: changing them to
  any value leaves the answer as it was, so a closer whose four masks are empty
  reports no close operations whatever \<open>overwriting_close_mask\<close> has been set to.
\<close>

theorem has_close_operations_four_masks:
  fixes c :: "('f::len) LogicalCloser"
  shows "(has_close_operations c \<longleftrightarrow>
            (normal_close_mask c \<noteq> 0 \<or> read_only_close_mask c \<noteq> 0 \<or>
             flush_only_close_mask c \<noteq> 0 \<or> disjoint_close_mask c \<noteq> 0)) \<and>
         has_close_operations (c\<lparr>overwriting_close_mask := m, closed_projections := p\<rparr>) =
            has_close_operations c \<and>
         (normal_close_mask c = 0 \<and> read_only_close_mask c = 0 \<and>
          flush_only_close_mask c = 0 \<and> disjoint_close_mask c = 0 \<longrightarrow>
            \<not> has_close_operations (c\<lparr>overwriting_close_mask := m\<rparr>))"
  by (simp add: has_close_operations_def mask_not_def)

theorem has_close_operations_four_masks_witness:
  "(let c = \<lparr>normal_close_mask = 0, read_only_close_mask = 0, flush_only_close_mask = 0,
              overwriting_close_mask = 0, disjoint_close_mask = 0, closed_projections = 0,
              complete_writes = 0, normal_close_op = None, index_close_op = None,
              read_only_close_op = None, flush_only_close_op = None\<rparr> :: 8 LogicalCloser
    in normal_close_mask c = 0 \<and> read_only_close_mask c = 0 \<and>
       flush_only_close_mask c = 0 \<and> disjoint_close_mask c = 0 \<and>
       \<not> has_close_operations (c\<lparr>overwriting_close_mask := 5\<rparr>) \<and>
       has_close_operations (c\<lparr>disjoint_close_mask := 2\<rparr>))"
proof -
  let ?c = "\<lparr>normal_close_mask = 0, read_only_close_mask = 0, flush_only_close_mask = 0,
              overwriting_close_mask = 0, disjoint_close_mask = 0, closed_projections = 0,
              complete_writes = 0, normal_close_op = None, index_close_op = None,
              read_only_close_op = None, flush_only_close_op = None\<rparr> :: 8 LogicalCloser"
  have z: "normal_close_mask ?c = 0 \<and> read_only_close_mask ?c = 0 \<and>
       flush_only_close_mask ?c = 0 \<and> disjoint_close_mask ?c = 0" by simp
  with has_close_operations_four_masks [of ?c 5]
  have a: "\<not> has_close_operations (?c\<lparr>overwriting_close_mask := 5\<rparr>)" by blast
  have "disjoint_close_mask (?c\<lparr>disjoint_close_mask := 2\<rparr>) \<noteq> 0" by simp
  with has_close_operations_four_masks [of "?c\<lparr>disjoint_close_mask := 2\<rparr>"]
  have b: "has_close_operations (?c\<lparr>disjoint_close_mask := 2\<rparr>)" by blast
  from z a b show ?thesis by (simp only: Let_def) simp
qed

section \<open>Elision of closes for projection accesses\<close>






section \<open>Version numbers of unversioned fields and deduplicated advances\<close>

text \<open>
  The two operators of \<open>VersionManager::ProjectionEpoch\<close> agree with equality of the
  pair: \<open>operator==\<close> is equality, and two keys are equivalent under \<open>operator<\<close>, the
  order of the \<open>LegionMap\<close>, exactly when they are equal. A map on the pair models
  \<open>previous_opens\<close> and \<open>previous_advancers\<close>.
\<close>

lemma ProjectionEpoch_eq_iff: "ProjectionEpoch_eq a b \<longleftrightarrow> a = b"
  by (auto simp: ProjectionEpoch_eq_def)

lemma ProjectionEpoch_less_equiv:
  "\<not> ProjectionEpoch_less a b \<and> \<not> ProjectionEpoch_less b a \<longleftrightarrow> a = b"
  by (auto simp: ProjectionEpoch_less_def split: if_splits)

lemma bit_mask_minus:
  fixes a :: "('f::len) word"
  shows "bit (mask_minus a b) i \<longleftrightarrow> bit a i \<and> \<not> bit b i"
  by (auto simp: mask_minus_def bit_and_iff bit_not_iff dest: bit_imp_le_length)

lemma bit_versioned_fields:
  "bit (versioned_fields xs) i \<longleftrightarrow> versions_of_field i xs \<noteq> []"
  by (induction xs) (auto simp: bit_or_iff split: if_splits)

lemma versions_of_field_insert:
  assumes "versions_of_field i xs = []" and "bit m i"
  shows "versions_of_field i (version_insert v m xs) = [v]"
  using assms by (induction xs) (auto simp: bit_or_iff split: if_splits)

lemma versions_of_field_select:
  assumes "bit m i"
  shows "versions_of_field i (select_fields m xs) = versions_of_field i xs"
  using assms
proof (induction xs)
  case Nil
  show ?case by simp
next
  case (Cons x xs)
  obtain v n where x: "x = (v, n)" by (cases x)
  show ?case
  proof (cases "bit n i")
    case True
    with Cons.prems have "bit (n AND m) i" by (simp add: bit_and_iff)
    then have "n AND m \<noteq> 0" by auto
    with True Cons x show ?thesis by (simp add: mask_disjoint_def bit_and_iff)
  next
    case False
    with Cons x show ?thesis by (simp add: mask_disjoint_def bit_and_iff)
  qed
qed

lemma mask_minus_absorb:
  fixes m :: "('f::len) word"
  shows "mask_minus m (s OR mask_minus m s) = 0"
  by (rule bit_eqI) (auto simp: bit_mask_minus bit_or_iff)

lemma dedup_epoch_again:
  "fst (dedup_epoch key m (snd (dedup_epoch key m prev))) = 0"
  by (simp add: dedup_epoch_def Let_def mask_not_def mask_minus_absorb)

lemma advance_fields_epochs:
  "previous_opens (advance_fields vm m) = previous_opens vm \<and>
   previous_advancers (advance_fields vm m) = previous_advancers vm"
  by (simp add: advance_fields_def Let_def)


lemma record_versions_step:
  fixes vm :: "('f::len) VersionManager"
  assumes "bit version_mask i" and "versions_of_field i (current_version_infos vm) = []"
  defines "unversioned \<equiv> mask_minus version_mask (versioned_fields (current_version_infos vm))"
  defines "vm' \<equiv> (if mask_not unversioned then vm
                 else fst (find_or_create_unversioned_states vm unversioned))"
  shows "versions_of_field i (current_version_infos vm') = [init_version] \<and>
         versions_of_field i (select_fields version_mask (current_version_infos vm')) =
           [init_version] \<and>
         bit unversioned i"
proof -
  let ?cur = "current_version_infos vm"
  from assms(2) have nv: "\<not> bit (versioned_fields ?cur) i"
    by (simp add: bit_versioned_fields)
  with assms(1) have u: "bit unversioned i" by (simp add: unversioned_def bit_mask_minus)
  then have un: "\<not> mask_not unversioned" by (auto simp: mask_not_def)
  let ?missing = "mask_minus unversioned (versioned_fields ?cur)"
  from u nv have mi: "bit ?missing i" by (simp add: bit_mask_minus)
  then have mn: "\<not> mask_not ?missing" by (auto simp: mask_not_def)
  from un mn have "current_version_infos vm' = version_insert init_version ?missing ?cur"
    by (simp add: vm'_def find_or_create_unversioned_states_def Let_def)
  with assms(2) mi have c: "versions_of_field i (current_version_infos vm') = [init_version]"
    by (simp add: versions_of_field_insert)
  with assms(1) u show ?thesis by (simp add: versions_of_field_select)
qed

text \<open>
  C5. A field \<open>i\<close> that is requested through \<open>record_current_versions\<close> or
  \<open>record_path_only_versions\<close> and has no version state yet is not an error: the
  operation returns, the field is reported as unversioned, and afterwards the manager
  and the recorded field versions give the field exactly one version number,
  \<open>init_version\<close>, which is 1.
\<close>

theorem record_versions_unversioned_init:
  fixes vm :: "('f::len) VersionManager"
  assumes "bit version_mask i" and "versions_of_field i (current_version_infos vm) = []"
  shows "(case record_current_versions vm version_mask of
            (vm', info, unversioned) \<Rightarrow>
              versions_of_field i (current_version_infos vm') = [init_version] \<and>
              versions_of_field i info = [init_version] \<and> bit unversioned i) \<and>
         (case record_path_only_versions vm version_mask split_mask of
            (vm', info, unversioned) \<Rightarrow>
              versions_of_field i (current_version_infos vm') = [init_version] \<and>
              versions_of_field i info = [init_version] \<and> bit unversioned i) \<and>
         init_version = 1"
  using record_versions_step [OF assms]
  by (simp add: record_current_versions_def record_path_only_versions_def Let_def
      init_version_def)

theorem record_versions_unversioned_init_witness:
  "bit (3 :: 8 word) 0 \<and>
   versions_of_field 0 [(3, 2 :: 8 word)] = [] \<and>
   record_current_versions
     \<lparr>is_owner = True, owner_space = 0, current_version_infos = [(3, 2 :: 8 word)],
      previous_version_infos = [], remote_valid_fields = 0,
      pending_remote_advance_summary = 0, previous_opens = Map.empty,
      previous_advancers = Map.empty\<rparr> 3 =
     (\<lparr>is_owner = True, owner_space = 0, current_version_infos = [(1, 1), (3, 2)],
      previous_version_infos = [], remote_valid_fields = 0,
      pending_remote_advance_summary = 0, previous_opens = Map.empty,
      previous_advancers = Map.empty\<rparr>, [(1, 1), (3, 2)], 1) \<and>
   versions_of_field 0 (current_version_infos (fst (record_current_versions
     \<lparr>is_owner = True, owner_space = 0, current_version_infos = [(3, 2 :: 8 word)],
      previous_version_infos = [], remote_valid_fields = 0,
      pending_remote_advance_summary = 0, previous_opens = Map.empty,
      previous_advancers = Map.empty\<rparr> 3))) = [1]"
proof -
  let ?vm = "\<lparr>is_owner = True, owner_space = 0, current_version_infos = [(3, 2 :: 8 word)],
      previous_version_infos = [], remote_valid_fields = 0,
      pending_remote_advance_summary = 0, previous_opens = Map.empty,
      previous_advancers = Map.empty\<rparr>"
  have b: "bit (3 :: 8 word) 0" by simp
  have v: "versions_of_field 0 (current_version_infos ?vm) = []" by simp
  have e: "record_current_versions ?vm 3 =
     (?vm\<lparr>current_version_infos := [(1, 1), (3, 2)]\<rparr>, [(1, 1), (3, 2)], 1)"
    by (simp add: record_current_versions_def find_or_create_unversioned_states_def
        mask_minus_def mask_not_def mask_disjoint_def init_version_def Let_def)
  from record_versions_unversioned_init [OF b v, of 0]
  have "versions_of_field 0 (current_version_infos (fst (record_current_versions ?vm 3))) =
      [init_version] \<and> init_version = 1"
    by (simp add: split_def)
  then have w: "versions_of_field 0 (current_version_infos (fst (record_current_versions ?vm 3))) = [1]"
    by simp
  from b v e w show ?thesis by simp
qed

lemma advance_versions_seen_opens:
  assumes "mask_not (fst (dedup_epoch \<lparr>logical_ctx_id = uid, epoch_id = open_epoch\<rparr> m
      (previous_opens vm)))"
  shows "advance_versions vm m uid True open_epoch dedup_advances advance_epoch = vm"
  using assms by (simp add: advance_versions_def split_def)

lemma advance_versions_seen_advances:
  assumes "mask_not (fst (dedup_epoch \<lparr>logical_ctx_id = uid, epoch_id = advance_epoch\<rparr> m
      (previous_advancers vm)))"
  shows "advance_versions vm m uid False open_epoch True advance_epoch = vm"
  using assms by (simp add: advance_versions_def split_def Let_def)

text \<open>
  C3. An advance that is deduplicated by its (logical context, projection epoch) pair
  (\<open>dedup_opens\<close> or \<open>dedup_advances\<close> is set) is idempotent: issuing the same
  advance a second time leaves the version manager as the first left it.
\<close>

theorem advance_versions_idempotent:
  fixes vm :: "('f::len) VersionManager"
  assumes "dedup_opens \<or> dedup_advances"
  shows "advance_versions
           (advance_versions vm m uid dedup_opens open_epoch dedup_advances advance_epoch)
           m uid dedup_opens open_epoch dedup_advances advance_epoch =
         advance_versions vm m uid dedup_opens open_epoch dedup_advances advance_epoch"
proof -
  let ?ko = "\<lparr>logical_ctx_id = uid, epoch_id = open_epoch\<rparr>"
  let ?ka = "\<lparr>logical_ctx_id = uid, epoch_id = advance_epoch\<rparr>"
  let ?A = "advance_versions vm m uid dedup_opens open_epoch dedup_advances advance_epoch"
  show ?thesis
  proof (cases dedup_opens)
    case True
    let ?d = "dedup_epoch ?ko m (previous_opens vm)"
    show ?thesis
    proof (cases "mask_not (fst ?d)")
      case z: True
      with True show ?thesis by (simp add: advance_versions_seen_opens)
    next
      case False
      with True have "previous_opens ?A = snd ?d"
        by (simp add: advance_versions_def split_def Let_def advance_fields_epochs)
      then have "mask_not (fst (dedup_epoch ?ko m (previous_opens ?A)))"
        by (simp add: dedup_epoch_again mask_not_def)
      with True show ?thesis
        by (simp add: advance_versions_seen_opens)
    qed
  next
    case False
    with assms have da: dedup_advances by simp
    let ?d = "dedup_epoch ?ka m (previous_advancers vm)"
    show ?thesis
    proof (cases "mask_not (fst ?d)")
      case z: True
      with False da show ?thesis by (simp add: advance_versions_seen_advances)
    next
      case nz: False
      with False da have "previous_advancers ?A = snd ?d"
        by (simp add: advance_versions_def split_def Let_def advance_fields_epochs)
      then have "mask_not (fst (dedup_epoch ?ka m (previous_advancers ?A)))"
        by (simp add: dedup_epoch_again mask_not_def)
      with False da show ?thesis
        by (simp add: advance_versions_seen_advances)
    qed
  qed
qed

theorem advance_versions_idempotent_witness:
  "(False \<or> True) \<and>
   current_version_infos (advance_versions (advance_versions
     \<lparr>is_owner = True, owner_space = 0, current_version_infos = [(1, 3 :: 8 word)],
      previous_version_infos = [], remote_valid_fields = 0,
      pending_remote_advance_summary = 0, previous_opens = Map.empty,
      previous_advancers = Map.empty\<rparr> 1 7 False 0 True 4) 1 7 False 0 True 4) =
     [(1, 2), (2, 1)]"
proof -
  let ?vm = "\<lparr>is_owner = True, owner_space = 0, current_version_infos = [(1, 3 :: 8 word)],
      previous_version_infos = [], remote_valid_fields = 0,
      pending_remote_advance_summary = 0, previous_opens = Map.empty,
      previous_advancers = Map.empty\<rparr>"
  have h: "False \<or> True" by simp
  have "current_version_infos (advance_versions ?vm 1 7 False 0 True 4) = [(1, 2), (2, 1)]"
    by (simp add: advance_versions_def dedup_epoch_def advance_fields_def
        mask_minus_def mask_not_def mask_disjoint_def init_version_def Let_def)
  with advance_versions_idempotent [OF h, of ?vm 1 7 0 4] show ?thesis by simp
qed

end
